theory Spec2Isabelle
  imports Complex_Main "HOL-Library.Word"
begin

section \<open>Data model of \<^verbatim>\<open>src/main.cpp\<close>\<close>

text \<open>
  The program is a small OpenGL renderer. Its functions are embedded as HOL functions:
  unsigned 32-bit integers are \<open>32 word\<close>, the calls into OpenGL are recorded, in order and
  with their arguments, in an explicit state, and a read outside a container is an error
  value. The single-precision numbers of the program are idealised as exact reals:
  rounding is not part of this model.
\<close>

type_synonym u32 = "32 word"

record Mesh =
  vao :: u32
  faces :: u32
  texture :: u32

record Vertex3D =
  x :: real
  y :: real
  z :: real
  u :: real
  v :: real

text \<open>
  What can go wrong: a read outside a container (undefined behaviour in C++), and
  \<^verbatim>\<open>exit(code)\<close> after a diagnostic was printed.
\<close>

datatype error = OutOfBounds | Exit nat string

definition sizeof_float :: nat where
  "sizeof_float = 4"

definition sizeof_uint32 :: nat where
  "sizeof_uint32 = 4"

text \<open>\<^verbatim>\<open>sizeof(Vertex3D)\<close>: five floats, no padding.\<close>

definition sizeof_Vertex3D :: nat where
  "sizeof_Vertex3D = 5 * sizeof_float"

section \<open>The transform pipeline: buildModelMatrix\<close>

text \<open>
  \<^verbatim>\<open>glm::vec3\<close>, \<^verbatim>\<open>glm::vec4\<close> and \<^verbatim>\<open>glm::mat4\<close>. A matrix is stored by columns: \<^verbatim>\<open>m[i]\<close> is column
  \<open>i\<close>, \<^verbatim>\<open>m[i][j]\<close> its component \<open>j\<close>.
\<close>

datatype vec3 = vec3 real real real
datatype vec4 = vec4 real real real real
datatype mat4 = mat4 vec4 vec4 vec4 vec4

fun index3 :: "vec3 \<Rightarrow> nat \<Rightarrow> real" where
  "index3 (vec3 a b c) i = (if i = 0 then a else if i = 1 then b else c)"

fun index4 :: "vec4 \<Rightarrow> nat \<Rightarrow> real" where
  "index4 (vec4 a b c d) i = (if i = 0 then a else if i = 1 then b else if i = 2 then c else d)"

fun column :: "mat4 \<Rightarrow> nat \<Rightarrow> vec4" where
  "column (mat4 c0 c1 c2 c3) i = (if i = 0 then c0 else if i = 1 then c1 else if i = 2 then c2 else c3)"

fun vec4_times :: "vec4 \<Rightarrow> real \<Rightarrow> vec4" where
  "vec4_times (vec4 a b c d) s = vec4 (a * s) (b * s) (c * s) (d * s)"

fun vec4_plus :: "vec4 \<Rightarrow> vec4 \<Rightarrow> vec4" where
  "vec4_plus (vec4 a b c d) (vec4 a' b' c' d') = vec4 (a + a') (b + b') (c + c') (d + d')"

fun vec3_times :: "vec3 \<Rightarrow> real \<Rightarrow> vec3" where
  "vec3_times (vec3 a b c) s = vec3 (a * s) (b * s) (c * s)"

fun dot3 :: "vec3 \<Rightarrow> vec3 \<Rightarrow> real" where
  "dot3 (vec3 a b c) (vec3 a' b' c') = a * a' + b * b' + c * c'"

text \<open>
  Modelled from the spec: \<^verbatim>\<open>glm::mat4(1)\<close>, \<^verbatim>\<open>glm::translate\<close>, \<^verbatim>\<open>glm::scale\<close> and \<^verbatim>\<open>glm::rotate\<close>
  are the GLM library's and not under src/. They are written the way the library computes
  them, column by column from the matrix passed in; that they are the factors
  \<open>translate(position)\<close>, \<open>scale(scale)\<close>, \<open>rotateZ\<close>, \<open>rotateX\<close>, \<open>rotateY\<close> of the
  specification's product is proved below.
\<close>

definition inversesqrt :: "real \<Rightarrow> real" where
  "inversesqrt r = 1 / sqrt r"

definition normalize :: "vec3 \<Rightarrow> vec3" where
  "normalize w = vec3_times w (inversesqrt (dot3 w w))"

definition glm_mat4 :: "real \<Rightarrow> mat4" where
  "glm_mat4 s = mat4 (vec4 s 0 0 0) (vec4 0 s 0 0) (vec4 0 0 s 0) (vec4 0 0 0 s)"

definition glm_translate :: "mat4 \<Rightarrow> vec3 \<Rightarrow> mat4" where
  "glm_translate m w =
     mat4 (column m 0) (column m 1) (column m 2)
       (vec4_plus (vec4_plus (vec4_plus (vec4_times (column m 0) (index3 w 0))
                                         (vec4_times (column m 1) (index3 w 1)))
                             (vec4_times (column m 2) (index3 w 2)))
                  (column m 3))"

definition glm_scale :: "mat4 \<Rightarrow> vec3 \<Rightarrow> mat4" where
  "glm_scale m w =
     mat4 (vec4_times (column m 0) (index3 w 0))
          (vec4_times (column m 1) (index3 w 1))
          (vec4_times (column m 2) (index3 w 2))
          (column m 3)"

definition glm_rotate :: "mat4 \<Rightarrow> real \<Rightarrow> vec3 \<Rightarrow> mat4" where
  "glm_rotate m angle w =
     (let a = angle;
          c = cos a;
          s = sin a;
          axis = normalize w;
          temp = vec3_times axis (1 - c);
          r00 = c + index3 temp 0 * index3 axis 0;
          r01 = index3 temp 0 * index3 axis 1 + s * index3 axis 2;
          r02 = index3 temp 0 * index3 axis 2 - s * index3 axis 1;
          r10 = index3 temp 1 * index3 axis 0 - s * index3 axis 2;
          r11 = c + index3 temp 1 * index3 axis 1;
          r12 = index3 temp 1 * index3 axis 2 + s * index3 axis 0;
          r20 = index3 temp 2 * index3 axis 0 + s * index3 axis 1;
          r21 = index3 temp 2 * index3 axis 1 - s * index3 axis 0;
          r22 = c + index3 temp 2 * index3 axis 2
      in mat4
           (vec4_plus (vec4_plus (vec4_times (column m 0) r00) (vec4_times (column m 1) r01))
                      (vec4_times (column m 2) r02))
           (vec4_plus (vec4_plus (vec4_times (column m 0) r10) (vec4_times (column m 1) r11))
                      (vec4_times (column m 2) r12))
           (vec4_plus (vec4_plus (vec4_times (column m 0) r20) (vec4_times (column m 1) r21))
                      (vec4_times (column m 2) r22))
           (column m 3))"

text \<open>The source: five calls, each on the result of the one before.\<close>

definition buildModelMatrix :: "vec3 \<Rightarrow> vec3 \<Rightarrow> vec3 \<Rightarrow> mat4" where
  "buildModelMatrix position orientation scale =
     (let m0 = glm_translate (glm_mat4 1) position;
          m1 = glm_scale m0 scale;
          m2 = glm_rotate m1 (index3 orientation 2) (vec3 0 0 1);
          m3 = glm_rotate m2 (index3 orientation 0) (vec3 1 0 0);
          m4 = glm_rotate m3 (index3 orientation 1) (vec3 0 1 0)
      in m4)"

subsection \<open>The matrices of the specification's formula\<close>

text \<open>
  The matrix product (\<^verbatim>\<open>operator*\<close> of \<^verbatim>\<open>glm::mat4\<close>) and the textbook translation, scaling
  and axis rotation matrices, written out by columns.
\<close>

definition mat_column_times :: "mat4 \<Rightarrow> vec4 \<Rightarrow> vec4" where
  "mat_column_times a b =
     vec4_plus (vec4_plus (vec4_plus (vec4_times (column a 0) (index4 b 0))
                                     (vec4_times (column a 1) (index4 b 1)))
                          (vec4_times (column a 2) (index4 b 2)))
               (vec4_times (column a 3) (index4 b 3))"

definition mat_times :: "mat4 \<Rightarrow> mat4 \<Rightarrow> mat4" where
  "mat_times a b =
     mat4 (mat_column_times a (column b 0)) (mat_column_times a (column b 1))
          (mat_column_times a (column b 2)) (mat_column_times a (column b 3))"

definition identity :: mat4 where
  "identity = mat4 (vec4 1 0 0 0) (vec4 0 1 0 0) (vec4 0 0 1 0) (vec4 0 0 0 1)"

definition translation :: "vec3 \<Rightarrow> mat4" where
  "translation p =
     mat4 (vec4 1 0 0 0) (vec4 0 1 0 0) (vec4 0 0 1 0) (vec4 (index3 p 0) (index3 p 1) (index3 p 2) 1)"

definition scaling :: "vec3 \<Rightarrow> mat4" where
  "scaling s =
     mat4 (vec4 (index3 s 0) 0 0 0) (vec4 0 (index3 s 1) 0 0) (vec4 0 0 (index3 s 2) 0) (vec4 0 0 0 1)"

definition rotateX :: "real \<Rightarrow> mat4" where
  "rotateX a = mat4 (vec4 1 0 0 0) (vec4 0 (cos a) (sin a) 0) (vec4 0 (- sin a) (cos a) 0) (vec4 0 0 0 1)"

definition rotateY :: "real \<Rightarrow> mat4" where
  "rotateY a = mat4 (vec4 (cos a) 0 (- sin a) 0) (vec4 0 1 0 0) (vec4 (sin a) 0 (cos a) 0) (vec4 0 0 0 1)"

definition rotateZ :: "real \<Rightarrow> mat4" where
  "rotateZ a = mat4 (vec4 (cos a) (sin a) 0 0) (vec4 (- sin a) (cos a) 0 0) (vec4 0 0 1 0) (vec4 0 0 0 1)"

text \<open>
  The three rotations of \<open>buildModelMatrix\<close> applied in another order of the axes: the same
  calls, after the same translation and scaling, in the order of the list.
\<close>

datatype axis = AxisX | AxisY | AxisZ

fun rotate_about :: "axis \<Rightarrow> mat4 \<Rightarrow> vec3 \<Rightarrow> mat4" where
  "rotate_about AxisX m orientation = glm_rotate m (index3 orientation 0) (vec3 1 0 0)"
| "rotate_about AxisY m orientation = glm_rotate m (index3 orientation 1) (vec3 0 1 0)"
| "rotate_about AxisZ m orientation = glm_rotate m (index3 orientation 2) (vec3 0 0 1)"

definition model_matrix_in_order :: "axis list \<Rightarrow> vec3 \<Rightarrow> vec3 \<Rightarrow> vec3 \<Rightarrow> mat4" where
  "model_matrix_in_order order position orientation scale =
     foldl (\<lambda>m ax. rotate_about ax m orientation)
       (glm_scale (glm_translate (glm_mat4 1) position) scale) order"

text \<open>\<^verbatim>\<open>m[c][r]\<close>: component \<open>r\<close> of column \<open>c\<close>.\<close>

definition entry :: "mat4 \<Rightarrow> nat \<Rightarrow> nat \<Rightarrow> real" where
  "entry m c r = index4 (column m c) r"

text \<open>
  Angles of general position: each of the three strictly between 0 and a quarter turn.
\<close>

definition generic_angles :: "vec3 \<Rightarrow> bool" where
  "generic_angles orientation \<longleftrightarrow>
     0 < index3 orientation 0 \<and> index3 orientation 0 < pi / 2 \<and>
     0 < index3 orientation 1 \<and> index3 orientation 1 < pi / 2 \<and>
     0 < index3 orientation 2 \<and> index3 orientation 2 < pi / 2"

definition nonzero_scale :: "vec3 \<Rightarrow> bool" where
  "nonzero_scale scale \<longleftrightarrow> index3 scale 0 \<noteq> 0 \<and> index3 scale 1 \<noteq> 0 \<and> index3 scale 2 \<noteq> 0"

section \<open>The calls into the libraries\<close>

datatype gl_enum =
    GL_ARRAY_BUFFER | GL_ELEMENT_ARRAY_BUFFER | GL_STATIC_DRAW | GL_FLOAT
  | GL_TEXTURE_2D | GL_TRIANGLES | GL_UNSIGNED_INT

datatype gl_buffer_bit = GL_COLOR_BUFFER_BIT | GL_DEPTH_BUFFER_BIT

datatype buffer_contents = VertexData "Vertex3D list" | IndexData "u32 list"

text \<open>A window event; only \<^verbatim>\<open>sf::Event::Closed\<close> is told apart from the others.\<close>

datatype sf_Event = Closed | OtherEvent nat

text \<open>
  The value of a uniform. The view and projection matrices are kept as the calls that
  compute them (\<^verbatim>\<open>glm::lookAt\<close> of eye, centre and up; \<^verbatim>\<open>glm::perspective\<close> of the field of
  view, the window's width and height whose quotient is the aspect ratio, near and far).
\<close>

datatype uniform_value =
    LookAt vec3 vec3 vec3
  | Perspective real "nat \<times> nat" real real
  | Matrix mat4

text \<open>
  One constructor per entry point the program calls, with the arguments of the call: the
  OpenGL functions (a \<^verbatim>\<open>glGen*\<close> call carries the name the driver returned), then the
  window's \<^verbatim>\<open>pollEvent\<close> with what it delivered, the clock reading (microseconds), the
  frame-rate line printed (with the elapsed time it is computed from), the shader
  program's \<^verbatim>\<open>setUniform\<close> and the window's \<^verbatim>\<open>display\<close>.
\<close>

datatype call =
    GenVertexArrays u32
  | BindVertexArray u32
  | GenBuffers u32
  | BindBuffer gl_enum u32
  | BufferData gl_enum nat buffer_contents gl_enum
  | VertexAttribPointer nat nat gl_enum bool nat nat
  | EnableVertexAttribArray nat
  | BindTexture gl_enum u32
  | DrawElements gl_enum u32 gl_enum
  | Clear "gl_buffer_bit set"
  | PollEvent "sf_Event option"
  | GetElapsedTime int
  | PrintFps int
  | SetUniform string uniform_value
  | Display

text \<open>
  The state of the window and graphics context as the program sees it: the names the driver hands
  out (the \<open>n\<close>-th generated object gets \<open>driver_names n\<close>), how many were generated, and
  the calls made so far.
\<close>

record gl_state =
  driver_names :: "nat \<Rightarrow> u32"
  generated :: nat
  calls :: "call list"

definition emit :: "call \<Rightarrow> gl_state \<Rightarrow> gl_state" where
  "emit c gl = gl\<lparr>calls := calls gl @ [c]\<rparr>"

definition glGenVertexArrays :: "gl_state \<Rightarrow> u32 \<times> gl_state" where
  "glGenVertexArrays gl =
     (let n = driver_names gl (generated gl)
      in (n, emit (GenVertexArrays n) (gl\<lparr>generated := Suc (generated gl)\<rparr>)))"

definition glGenBuffers :: "gl_state \<Rightarrow> u32 \<times> gl_state" where
  "glGenBuffers gl =
     (let n = driver_names gl (generated gl)
      in (n, emit (GenBuffers n) (gl\<lparr>generated := Suc (generated gl)\<rparr>)))"

text \<open>
  \<^verbatim>\<open>&xs[0]\<close> on a \<^verbatim>\<open>std::vector\<close>: element 0 must exist. The pointer obtained is then
  read by \<^verbatim>\<open>glBufferData\<close> for the whole length of the vector.
\<close>

definition element0_address :: "'a list \<Rightarrow> error + 'a list" where
  "element0_address xs = (case xs of [] \<Rightarrow> Inl OutOfBounds | _ # _ \<Rightarrow> Inr xs)"

section \<open>constructMesh\<close>

text \<open>
  The source, call by call. Only vertex attribute 0 is configured: the place of the
  second attribute holds a TODO comment and no code.
\<close>

definition constructMesh ::
  "gl_state \<Rightarrow> Vertex3D list \<Rightarrow> u32 list \<Rightarrow> error + (Mesh \<times> gl_state)" where
  "constructMesh gl0 vertices fs =
     (let m0 = \<lparr>vao = 0, faces = 0, texture = 0\<rparr>;
          m1 = m0\<lparr>faces := of_nat (length fs)\<rparr>;
          (vao_name, gl1) = glGenVertexArrays gl0;
          m = m1\<lparr>vao := vao_name\<rparr>;
          gl2 = emit (BindVertexArray (vao m)) gl1;
          (vbo, gl3) = glGenBuffers gl2;
          gl4 = emit (BindBuffer GL_ARRAY_BUFFER vbo) gl3
      in case element0_address vertices of
           Inl e \<Rightarrow> Inl e
         | Inr vdata \<Rightarrow>
             (let gl5 = emit (BufferData GL_ARRAY_BUFFER (length vertices * sizeof_Vertex3D)
                               (VertexData vdata) GL_STATIC_DRAW) gl4;
                  gl6 = emit (VertexAttribPointer 0 3 GL_FLOAT False sizeof_Vertex3D 0) gl5;
                  gl7 = emit (EnableVertexAttribArray 0) gl6;
                  (ebo, gl8) = glGenBuffers gl7;
                  gl9 = emit (BindBuffer GL_ELEMENT_ARRAY_BUFFER ebo) gl8
              in case element0_address fs of
                   Inl e \<Rightarrow> Inl e
                 | Inr fdata \<Rightarrow>
                     (let gl10 = emit (BufferData GL_ELEMENT_ARRAY_BUFFER
                                        (length fs * sizeof_uint32) (IndexData fdata)
                                        GL_STATIC_DRAW) gl9;
                          gl11 = emit (BindVertexArray 0) gl10
                      in Inr (m, gl11))))"

text \<open>The literal triangle of \<^verbatim>\<open>triangle()\<close>.\<close>

definition triangleVertices :: "Vertex3D list" where
  "triangleVertices =
     [\<lparr>x = - 0.5, y = - 0.5, z = 0, u = 0, v = 1\<rparr>,
      \<lparr>x = - 0.5, y = 0.5, z = 0, u = 0, v = 0\<rparr>,
      \<lparr>x = 0.5, y = 0.5, z = 0, u = 1, v = 0\<rparr>]"

definition triangleFaces :: "u32 list" where
  "triangleFaces = [2, 1, 0]"

text \<open>A fresh context whose driver numbers its objects 1, 2, 3, ...\<close>

definition gl_init :: gl_state where
  "gl_init = \<lparr>driver_names = (\<lambda>n. of_nat (Suc n)), generated = 0, calls = []\<rparr>"

text \<open>
  The preconditions the specification states for mesh building: the number of indices is
  a multiple of 3 and every index is below the number of vertices.
\<close>

definition mesh_preconditions :: "Vertex3D list \<Rightarrow> u32 list \<Rightarrow> bool" where
  "mesh_preconditions vertices fs \<longleftrightarrow>
     length fs mod 3 = 0 \<and> list_all (\<lambda>i. unat i < length vertices) fs"

text \<open>The mesh of a result, when there is one.\<close>

definition mesh_of :: "error + (Mesh \<times> gl_state) \<Rightarrow> error + Mesh" where
  "mesh_of r = map_sum id fst r"

definition calls_of :: "error + (Mesh \<times> gl_state) \<Rightarrow> error + call list" where
  "calls_of r = map_sum id (\<lambda>p. calls (snd p)) r"

section \<open>The Assimp data the program reads\<close>

text \<open>
  A C array is a list together with the count the structure stores beside it; the code
  trusts the count, so a read at an index the array does not have is \<open>OutOfBounds\<close>.
\<close>

datatype aiVector3D = aiVector3D (ai_x: real) (ai_y: real) (ai_z: real)

record aiFace =
  mNumIndices :: nat
  mIndices :: "u32 list"

record aiMesh =
  mNumVertices :: nat
  mVertices :: "aiVector3D list"
  mTextureCoords :: "aiVector3D list list"
  mNumFaces :: nat
  mFaces :: "aiFace list"

record aiScene =
  mNumMeshes :: nat
  mMeshes :: "aiMesh list"

definition array_read :: "'a list \<Rightarrow> nat \<Rightarrow> error + 'a" where
  "array_read xs i = (if i < length xs then Inr (xs ! i) else Inl OutOfBounds)"

section \<open>fromAssimpMesh\<close>

text \<open>
  The vertex pushed for a source position: the initialiser list \<^verbatim>\<open>{ x, y, z }\<close> names three
  of the five fields, the remaining two (\<open>u\<close>, \<open>v\<close>) are zero-initialised. The texture
  coordinates of the mesh are not read: their place holds a TODO comment.
\<close>

definition pushed_vertex :: "aiVector3D \<Rightarrow> Vertex3D" where
  "pushed_vertex p = \<lparr>x = ai_x p, y = ai_y p, z = ai_z p, u = 0, v = 0\<rparr>"

function vertex_loop :: "aiMesh \<Rightarrow> nat \<Rightarrow> Vertex3D list \<Rightarrow> error + Vertex3D list" where
  "vertex_loop mesh i vertices =
     (if i < mNumVertices mesh then
        (case array_read (mVertices mesh) i of
           Inl e \<Rightarrow> Inl e
         | Inr p \<Rightarrow> vertex_loop mesh (Suc i) (vertices @ [pushed_vertex p]))
      else Inr vertices)"
  by pat_completeness auto
termination
  by (relation "measure (\<lambda>(mesh, i, vertices). mNumVertices mesh - i)") auto

declare vertex_loop.simps [simp del]

text \<open>The three indices of one face, \<^verbatim>\<open>mIndices[0]\<close>, \<^verbatim>\<open>[1]\<close>, \<^verbatim>\<open>[2]\<close>, each a read of its own.\<close>

definition face_indices :: "aiFace \<Rightarrow> error + u32 list" where
  "face_indices f =
     (case array_read (mIndices f) 0 of
        Inl e \<Rightarrow> Inl e
      | Inr i0 \<Rightarrow>
          (case array_read (mIndices f) 1 of
             Inl e \<Rightarrow> Inl e
           | Inr i1 \<Rightarrow>
               (case array_read (mIndices f) 2 of
                  Inl e \<Rightarrow> Inl e
                | Inr i2 \<Rightarrow> Inr [i0, i1, i2])))"

function face_loop :: "aiMesh \<Rightarrow> nat \<Rightarrow> u32 list \<Rightarrow> error + u32 list" where
  "face_loop mesh i fs =
     (if i < mNumFaces mesh then
        (case array_read (mFaces mesh) i of
           Inl e \<Rightarrow> Inl e
         | Inr f \<Rightarrow>
             (case face_indices f of
                Inl e \<Rightarrow> Inl e
              | Inr pushed \<Rightarrow> face_loop mesh (Suc i) (fs @ pushed)))
      else Inr fs)"
  by pat_completeness auto
termination
  by (relation "measure (\<lambda>(mesh, i, fs). mNumFaces mesh - i)") auto

declare face_loop.simps [simp del]

text \<open>
  The two output vectors are passed by reference and appended to; the function returns
  them. \<^verbatim>\<open>faces.reserve\<close> changes no contents.
\<close>

definition fromAssimpMesh ::
  "aiMesh \<Rightarrow> Vertex3D list \<Rightarrow> u32 list \<Rightarrow> error + (Vertex3D list \<times> u32 list)" where
  "fromAssimpMesh mesh vertices fs =
     (case vertex_loop mesh 0 vertices of
        Inl e \<Rightarrow> Inl e
      | Inr vertices' \<Rightarrow>
          (case face_loop mesh 0 fs of
             Inl e \<Rightarrow> Inl e
           | Inr fs' \<Rightarrow> Inr (vertices', fs')))"

section \<open>assimpLoad\<close>

text \<open>
  The post-processing flags are a bit set; \<^verbatim>\<open>flags |= aiProcess_FlipUVs\<close> adds one member.
  \<^verbatim>\<open>Assimp::Importer::ReadFile\<close> is the library's: it is a parameter of the model. It
  answers \<open>Inl msg\<close> for a null scene, \<open>msg\<close> being what \<^verbatim>\<open>GetErrorString\<close> then returns.
\<close>

datatype aiPostProcessSteps = aiProcessPreset_TargetRealtime_MaxQuality | aiProcess_FlipUVs

type_synonym importer = "string \<Rightarrow> aiPostProcessSteps set \<Rightarrow> string + aiScene"

definition assimpLoad ::
  "importer \<Rightarrow> gl_state \<Rightarrow> string \<Rightarrow> bool \<Rightarrow> error + (Mesh \<times> gl_state)" where
  "assimpLoad ReadFile gl path flipUvs =
     (let flags0 = {aiProcessPreset_TargetRealtime_MaxQuality};
          flags = (if flipUvs then flags0 \<union> {aiProcess_FlipUVs} else flags0)
      in case ReadFile path flags of
           Inl errorString \<Rightarrow> Inl (Exit 1 (''ASSIMP ERROR'' @ errorString))
         | Inr scene \<Rightarrow>
             (case array_read (mMeshes scene) 0 of
                Inl e \<Rightarrow> Inl e
              | Inr mesh \<Rightarrow>
                  (case fromAssimpMesh mesh [] [] of
                     Inl e \<Rightarrow> Inl e
                   | Inr (vertices, fs) \<Rightarrow> constructMesh gl vertices fs)))"

text \<open>
  Modelled from the spec: Assimp's UV-flip post-processing step is not under src/. It
  replaces the second component of every texture coordinate of every channel by one minus
  it (\<open>v' = 1 - v\<close>) and leaves everything else of the mesh as it is.
\<close>

definition flip_uv :: "aiVector3D \<Rightarrow> aiVector3D" where
  "flip_uv t = aiVector3D (ai_x t) (1 - ai_y t) (ai_z t)"

definition FlipUVs :: "aiMesh \<Rightarrow> aiMesh" where
  "FlipUVs mesh = mesh\<lparr>mTextureCoords := map (map flip_uv) (mTextureCoords mesh)\<rparr>"

text \<open>
  A source asset for the examples: the triangle of \<^verbatim>\<open>triangle()\<close> as Assimp would hand it
  over, with its texture coordinates in the first UV channel.
\<close>

definition uv_triangle :: aiMesh where
  "uv_triangle =
     \<lparr>mNumVertices = 3,
      mVertices = [aiVector3D (- 0.5) (- 0.5) 0, aiVector3D (- 0.5) 0.5 0, aiVector3D 0.5 0.5 0],
      mTextureCoords = [[aiVector3D 0 1 0, aiVector3D 0 0 0, aiVector3D 1 0 0]],
      mNumFaces = 1,
      mFaces = [\<lparr>mNumIndices = 3, mIndices = [2, 1, 0]\<rparr>]\<rparr>"

text \<open>An importer that parses every path to that asset and applies the flip when asked to.\<close>

definition uv_triangle_importer :: importer where
  "uv_triangle_importer path flags =
     Inr \<lparr>mNumMeshes = 1,
          mMeshes = [if aiProcess_FlipUVs \<in> flags then FlipUVs uv_triangle else uv_triangle]\<rparr>"

text \<open>An importer whose scene parsed but holds no mesh (an animation-only file).\<close>

definition no_mesh_importer :: importer where
  "no_mesh_importer path flags = Inr \<lparr>mNumMeshes = 0, mMeshes = []\<rparr>"

text \<open>
  The invariant of a mesh Assimp delivers with triangular faces: the arrays have the
  lengths the counts say, every face has three indices, every index names a vertex.
\<close>

definition triangle_mesh :: "aiMesh \<Rightarrow> bool" where
  "triangle_mesh mesh \<longleftrightarrow>
     length (mVertices mesh) = mNumVertices mesh \<and>
     length (mFaces mesh) = mNumFaces mesh \<and>
     list_all (\<lambda>f. mNumIndices f = 3 \<and> length (mIndices f) = 3 \<and>
                   list_all (\<lambda>i. unat i < mNumVertices mesh) (mIndices f)) (mFaces mesh)"

text \<open>A cube as a source asset: 8 vertices, 12 triangular faces.\<close>

definition cube :: aiMesh where
  "cube =
     \<lparr>mNumVertices = 8,
      mVertices =
        [aiVector3D (- 1) (- 1) (- 1), aiVector3D 1 (- 1) (- 1), aiVector3D 1 1 (- 1),
         aiVector3D (- 1) 1 (- 1), aiVector3D (- 1) (- 1) 1, aiVector3D 1 (- 1) 1,
         aiVector3D 1 1 1, aiVector3D (- 1) 1 1],
      mTextureCoords = [],
      mNumFaces = 12,
      mFaces =
        [\<lparr>mNumIndices = 3, mIndices = [0, 2, 1]\<rparr>, \<lparr>mNumIndices = 3, mIndices = [0, 3, 2]\<rparr>,
         \<lparr>mNumIndices = 3, mIndices = [4, 5, 6]\<rparr>, \<lparr>mNumIndices = 3, mIndices = [4, 6, 7]\<rparr>,
         \<lparr>mNumIndices = 3, mIndices = [0, 1, 5]\<rparr>, \<lparr>mNumIndices = 3, mIndices = [0, 5, 4]\<rparr>,
         \<lparr>mNumIndices = 3, mIndices = [1, 2, 6]\<rparr>, \<lparr>mNumIndices = 3, mIndices = [1, 6, 5]\<rparr>,
         \<lparr>mNumIndices = 3, mIndices = [2, 3, 7]\<rparr>, \<lparr>mNumIndices = 3, mIndices = [2, 7, 6]\<rparr>,
         \<lparr>mNumIndices = 3, mIndices = [3, 0, 4]\<rparr>, \<lparr>mNumIndices = 3, mIndices = [3, 4, 7]\<rparr>]\<rparr>"

section \<open>drawMesh and the render loop of main\<close>

definition drawMesh :: "Mesh \<Rightarrow> gl_state \<Rightarrow> gl_state" where
  "drawMesh m gl0 =
     (let gl1 = emit (BindTexture GL_TEXTURE_2D (texture m)) gl0;
          gl2 = emit (BindVertexArray (vao m)) gl1;
          gl3 = emit (DrawElements GL_TRIANGLES (faces m) GL_UNSIGNED_INT) gl2;
          gl4 = emit (BindVertexArray 0) gl3
      in emit (BindTexture GL_TEXTURE_2D 0) gl4)"

definition objectPosition :: vec3 where
  "objectPosition = vec3 0 0 (- 3)"

definition objectOrientation :: vec3 where
  "objectOrientation = vec3 0 0 0"

definition objectScale :: vec3 where
  "objectScale = vec3 3 3 3"

definition radians :: "real \<Rightarrow> real" where
  "radians degrees = degrees * pi / 180"

text \<open>
  What the outside world gives one iteration of the loop: the events \<^verbatim>\<open>pollEvent\<close> delivers
  before it answers false, the clock reading, and the size of the window.
\<close>

record frame_input =
  pending :: "sf_Event list"
  clock :: int
  window_size :: "nat \<times> nat"

text \<open>The inner loop \<^verbatim>\<open>while (window.pollEvent(ev))\<close>, on the flag \<open>running\<close>.\<close>

fun poll_events :: "sf_Event list \<Rightarrow> bool \<Rightarrow> gl_state \<Rightarrow> bool \<times> gl_state" where
  "poll_events [] running gl = (running, emit (PollEvent None) gl)"
| "poll_events (ev # evs) running gl =
     poll_events evs (if ev = Closed then False else running) (emit (PollEvent (Some ev)) gl)"

text \<open>
  The loop \<^verbatim>\<open>while (running)\<close> of \<open>main\<close> and the \<^verbatim>\<open>return 0\<close> after it, started with the mesh
  \<open>obj\<close>, the flag and the last clock reading (\<open>last\<close> in the source). The result is the exit status, or \<open>None\<close>
  when the frames given are used up and the loop is still running.
\<close>

fun main_loop ::
  "Mesh \<Rightarrow> frame_input list \<Rightarrow> bool \<Rightarrow> int \<Rightarrow> gl_state \<Rightarrow> nat option \<times> gl_state" where
  "main_loop obj [] running last_time gl = (if running then (None, gl) else (Some 0, gl))"
| "main_loop obj (f # frames) running last_time gl =
     (if \<not> running then (Some 0, gl)
      else
        (let (running', gl1) = poll_events (pending f) running gl;
             now = clock f;
             diff = now - last_time;
             gl2 = emit (PrintFps diff) (emit (GetElapsedTime now) gl1);
             last_time' = now;
             camera = LookAt (vec3 0 0 0) (vec3 0 0 (- 1)) (vec3 0 1 0);
             perspective = Perspective (radians 45) (window_size f) 0.1 100;
             gl3 = emit (SetUniform ''view'' camera) gl2;
             gl4 = emit (SetUniform ''projection'' perspective) gl3;
             model = buildModelMatrix objectPosition objectOrientation objectScale;
             gl5 = emit (SetUniform ''model'' (Matrix model)) gl4;
             gl6 = emit (Clear {GL_COLOR_BUFFER_BIT, GL_DEPTH_BUFFER_BIT}) gl5;
             gl7 = drawMesh obj gl6;
             gl8 = emit Display gl7
         in main_loop obj frames running' last_time' gl8))"

text \<open>
  The calls of one iteration as the specification lists them: drain the pending events,
  measure the elapsed time, push view and projection, push the model matrix, clear the
  colour and depth buffers, draw the mesh, present the frame.
\<close>

definition iteration_calls :: "Mesh \<Rightarrow> int \<Rightarrow> frame_input \<Rightarrow> call list" where
  "iteration_calls obj last_time f =
     map (\<lambda>ev. PollEvent (Some ev)) (pending f) @ [PollEvent None] @
     [GetElapsedTime (clock f), PrintFps (clock f - last_time)] @
     [SetUniform ''view'' (LookAt (vec3 0 0 0) (vec3 0 0 (- 1)) (vec3 0 1 0)),
      SetUniform ''projection'' (Perspective (radians 45) (window_size f) 0.1 100)] @
     [SetUniform ''model'' (Matrix (buildModelMatrix objectPosition objectOrientation objectScale))] @
     [Clear {GL_COLOR_BUFFER_BIT, GL_DEPTH_BUFFER_BIT}] @
     [BindTexture GL_TEXTURE_2D (texture obj), BindVertexArray (vao obj),
      DrawElements GL_TRIANGLES (faces obj) GL_UNSIGNED_INT,
      BindVertexArray 0, BindTexture GL_TEXTURE_2D 0] @
     [Display]"

fun iterations_calls :: "Mesh \<Rightarrow> int \<Rightarrow> frame_input list \<Rightarrow> call list" where
  "iterations_calls obj last_time [] = []"
| "iterations_calls obj last_time (f # frames) =
     iteration_calls obj last_time f @ iterations_calls obj (clock f) frames"

text \<open>Frames for the examples: one without events, one in which the window is closed.\<close>

definition quiet_frame :: frame_input where
  "quiet_frame = \<lparr>pending = [], clock = 16000, window_size = (1200, 800)\<rparr>"

definition closing_frame :: frame_input where
  "closing_frame = \<lparr>pending = [Closed], clock = 32000, window_size = (1200, 800)\<rparr>"

definition triangle_mesh_handle :: Mesh where
  "triangle_mesh_handle = \<lparr>vao = 1, faces = 3, texture = 1\<rparr>"

section \<open>Properties of buildModelMatrix\<close>

lemma glm_translate_times: "glm_translate m w = mat_times m (translation w)"
  by (cases m; cases w; cases "column m 0"; cases "column m 1"; cases "column m 2"; cases "column m 3")
     (simp add: glm_translate_def mat_times_def mat_column_times_def translation_def)

lemma glm_scale_times: "glm_scale m w = mat_times m (scaling w)"
  by (cases m; cases w; cases "column m 0"; cases "column m 1"; cases "column m 2"; cases "column m 3")
     (simp add: glm_scale_def mat_times_def mat_column_times_def scaling_def)

lemma glm_rotate_z: "glm_rotate m a (vec3 0 0 1) = mat_times m (rotateZ a)"
  by (cases m; cases "column m 0"; cases "column m 1"; cases "column m 2"; cases "column m 3")
     (simp add: glm_rotate_def mat_times_def mat_column_times_def rotateZ_def normalize_def
        inversesqrt_def Let_def)

lemma glm_rotate_x: "glm_rotate m a (vec3 1 0 0) = mat_times m (rotateX a)"
  by (cases m; cases "column m 0"; cases "column m 1"; cases "column m 2"; cases "column m 3")
     (simp add: glm_rotate_def mat_times_def mat_column_times_def rotateX_def normalize_def
        inversesqrt_def Let_def)

lemma glm_rotate_y: "glm_rotate m a (vec3 0 1 0) = mat_times m (rotateY a)"
  by (cases m; cases "column m 0"; cases "column m 1"; cases "column m 2"; cases "column m 3")
     (simp add: glm_rotate_def mat_times_def mat_column_times_def rotateY_def normalize_def
        inversesqrt_def Let_def)

lemma mat_times_assoc: "mat_times (mat_times a b) c = mat_times a (mat_times b c)"
proof -
  obtain a0 a1 a2 a3 where a: "a = mat4 a0 a1 a2 a3" by (cases a)
  obtain b0 b1 b2 b3 where b: "b = mat4 b0 b1 b2 b3" by (cases b)
  obtain c0 c1 c2 c3 where c: "c = mat4 c0 c1 c2 c3" by (cases c)
  have col: "mat_column_times (mat_times a b) w = mat_column_times a (mat_column_times b w)" for w
    unfolding a b
    by (cases a0; cases a1; cases a2; cases a3; cases b0; cases b1; cases b2; cases b3; cases w)
       (simp add: mat_times_def mat_column_times_def algebra_simps)
  show ?thesis
  proof -
    have "mat_times (mat_times a b) c =
        mat4 (mat_column_times a (mat_column_times b c0)) (mat_column_times a (mat_column_times b c1))
             (mat_column_times a (mat_column_times b c2)) (mat_column_times a (mat_column_times b c3))"
      unfolding c by (simp add: mat_times_def [of "mat_times a b"] col)
    also have "\<dots> = mat_times a (mat_times b c)"
      unfolding c by (simp add: mat_times_def [of a] mat_times_def [of b])
    finally show ?thesis .
  qed
qed

lemma mat_times_identity: "mat_times identity a = a"
  by (cases a; cases "column a 0"; cases "column a 1"; cases "column a 2"; cases "column a 3")
     (simp add: mat_times_def mat_column_times_def identity_def)

lemma buildModelMatrix_product:
  "buildModelMatrix position orientation scale =
     mat_times (mat_times (mat_times (mat_times (mat_times identity (translation position))
       (scaling scale)) (rotateZ (index3 orientation 2))) (rotateX (index3 orientation 0)))
       (rotateY (index3 orientation 1))"
  by (simp add: buildModelMatrix_def glm_translate_times glm_scale_times glm_rotate_x
      glm_rotate_y glm_rotate_z glm_mat4_def identity_def)

lemma buildModelMatrix_source_order:
  "buildModelMatrix position orientation scale =
     model_matrix_in_order [AxisZ, AxisX, AxisY] position orientation scale"
  by (simp add: buildModelMatrix_def model_matrix_in_order_def)

lemma buildModelMatrix_product_right:
  "buildModelMatrix position orientation scale =
     mat_times (translation position) (mat_times (scaling scale)
       (mat_times (rotateZ (index3 orientation 2))
         (mat_times (rotateX (index3 orientation 0)) (rotateY (index3 orientation 1)))))"
  by (simp only: buildModelMatrix_product mat_times_assoc mat_times_identity)

lemma first_quadrant:
  assumes "0 < a" "a < pi / 2"
  shows "0 < sin a" "sin a < 1" "0 < cos a" "cos a < 1"
proof -
  show "0 < sin a" using assms by (rule sin_gt_zero2)
  show "0 < cos a" using assms by (rule cos_gt_zero)
  have "cos a < cos 0"
    using assms by (intro cos_monotone_0_pi) simp_all
  then show "cos a < 1" by simp
  have "sin a < sin (pi / 2)"
    using assms by (intro sin_monotone_2pi) simp_all
  then show "sin a < 1" by simp
qed

lemmas glm_unfold =
  model_matrix_in_order_def glm_translate_def glm_scale_def glm_rotate_def glm_mat4_def
  normalize_def inversesqrt_def entry_def Let_def

lemma entry_ZXY_1_2:
  "entry (model_matrix_in_order [AxisZ, AxisX, AxisY] p (vec3 a0 a1 a2) (vec3 k0 k1 k2)) 1 2 =
     k2 * sin a0"
  by (simp add: glm_unfold)

lemma entry_ZXY_0_0:
  "entry (model_matrix_in_order [AxisZ, AxisX, AxisY] p (vec3 a0 a1 a2) (vec3 k0 k1 k2)) 0 0 =
     k0 * (cos a2 * cos a1 - sin a2 * sin a0 * sin a1)"
  by (simp add: glm_unfold algebra_simps)

lemma entry_ZXY_2_1:
  "entry (model_matrix_in_order [AxisZ, AxisX, AxisY] p (vec3 a0 a1 a2) (vec3 k0 k1 k2)) 2 1 =
     k1 * (sin a2 * sin a1 - cos a2 * sin a0 * cos a1)"
  by (simp add: glm_unfold algebra_simps)

lemma entry_ZYX_1_2:
  "entry (model_matrix_in_order [AxisZ, AxisY, AxisX] p (vec3 a0 a1 a2) (vec3 k0 k1 k2)) 1 2 =
     k2 * (cos a1 * sin a0)"
  by (simp add: glm_unfold algebra_simps)

lemma entry_XZY_1_2:
  "entry (model_matrix_in_order [AxisX, AxisZ, AxisY] p (vec3 a0 a1 a2) (vec3 k0 k1 k2)) 1 2 =
     k2 * (sin a0 * cos a2)"
  by (simp add: glm_unfold algebra_simps)

lemma entry_XYZ_0_0:
  "entry (model_matrix_in_order [AxisX, AxisY, AxisZ] p (vec3 a0 a1 a2) (vec3 k0 k1 k2)) 0 0 =
     k0 * (cos a1 * cos a2)"
  by (simp add: glm_unfold algebra_simps)

lemma entry_YXZ_2_1:
  "entry (model_matrix_in_order [AxisY, AxisX, AxisZ] p (vec3 a0 a1 a2) (vec3 k0 k1 k2)) 2 1 =
     - (k1 * sin a0)"
  by (simp add: glm_unfold algebra_simps)

lemma entry_YZX_2_1:
  "entry (model_matrix_in_order [AxisY, AxisZ, AxisX] p (vec3 a0 a1 a2) (vec3 k0 k1 k2)) 2 1 =
     - (k1 * (cos a2 * sin a0))"
  by (simp add: glm_unfold algebra_simps)

lemma other_orders_differ:
  assumes g: "generic_angles orientation" and k: "nonzero_scale scale"
    and o: "order \<in> {[AxisX, AxisY, AxisZ], [AxisX, AxisZ, AxisY], [AxisY, AxisX, AxisZ],
                      [AxisY, AxisZ, AxisX], [AxisZ, AxisY, AxisX]}"
  shows "model_matrix_in_order order position orientation scale \<noteq>
         model_matrix_in_order [AxisZ, AxisX, AxisY] position orientation scale"
proof -
  obtain a0 a1 a2 where orientation: "orientation = vec3 a0 a1 a2" by (cases orientation)
  obtain k0 k1 k2 where scale: "scale = vec3 k0 k1 k2" by (cases scale)
  from g orientation have a: "0 < a0" "a0 < pi / 2" "0 < a1" "a1 < pi / 2" "0 < a2" "a2 < pi / 2"
    by (simp_all add: generic_angles_def)
  from k scale have kk: "k0 \<noteq> 0" "k1 \<noteq> 0" "k2 \<noteq> 0"
    by (simp_all add: nonzero_scale_def)
  note s0 = first_quadrant [OF a(1,2)] and s1 = first_quadrant [OF a(3,4)]
    and s2 = first_quadrant [OF a(5,6)]
  let ?src = "model_matrix_in_order [AxisZ, AxisX, AxisY] position (vec3 a0 a1 a2) (vec3 k0 k1 k2)"
  have xyz: "model_matrix_in_order [AxisX, AxisY, AxisZ] position (vec3 a0 a1 a2) (vec3 k0 k1 k2) \<noteq> ?src"
  proof
    assume eq: "model_matrix_in_order [AxisX, AxisY, AxisZ] position (vec3 a0 a1 a2) (vec3 k0 k1 k2) = ?src"
    have "k0 * (cos a1 * cos a2) = k0 * (cos a2 * cos a1 - sin a2 * sin a0 * sin a1)"
      using arg_cong [OF eq, of "\<lambda>m. entry m 0 0"]
      by (simp only: entry_XYZ_0_0 entry_ZXY_0_0)
    with kk have "cos a1 * cos a2 = cos a2 * cos a1 - sin a2 * sin a0 * sin a1"
      by simp
    then have "sin a2 * sin a0 * sin a1 = 0" by (simp add: algebra_simps)
    with s0(1) s1(1) s2(1) show False by simp
  qed
  have xzy: "model_matrix_in_order [AxisX, AxisZ, AxisY] position (vec3 a0 a1 a2) (vec3 k0 k1 k2) \<noteq> ?src"
  proof
    assume eq: "model_matrix_in_order [AxisX, AxisZ, AxisY] position (vec3 a0 a1 a2) (vec3 k0 k1 k2) = ?src"
    have "k2 * (sin a0 * cos a2) = k2 * sin a0"
      using arg_cong [OF eq, of "\<lambda>m. entry m 1 2"]
      by (simp only: entry_XZY_1_2 entry_ZXY_1_2)
    with kk s0(1) s2(4) show False by simp
  qed
  have zyx: "model_matrix_in_order [AxisZ, AxisY, AxisX] position (vec3 a0 a1 a2) (vec3 k0 k1 k2) \<noteq> ?src"
  proof
    assume eq: "model_matrix_in_order [AxisZ, AxisY, AxisX] position (vec3 a0 a1 a2) (vec3 k0 k1 k2) = ?src"
    have "k2 * (cos a1 * sin a0) = k2 * sin a0"
      using arg_cong [OF eq, of "\<lambda>m. entry m 1 2"]
      by (simp only: entry_ZYX_1_2 entry_ZXY_1_2)
    with kk s0(1) s1(4) show False by simp
  qed
  have pos: "0 < sin a2 * sin a1" using s1(1) s2(1) by simp
  have yxz: "model_matrix_in_order [AxisY, AxisX, AxisZ] position (vec3 a0 a1 a2) (vec3 k0 k1 k2) \<noteq> ?src"
  proof
    assume eq: "model_matrix_in_order [AxisY, AxisX, AxisZ] position (vec3 a0 a1 a2) (vec3 k0 k1 k2) = ?src"
    have "- (k1 * sin a0) = k1 * (sin a2 * sin a1 - cos a2 * sin a0 * cos a1)"
      using arg_cong [OF eq, of "\<lambda>m. entry m 2 1"]
      by (simp only: entry_YXZ_2_1 entry_ZXY_2_1)
    then have "k1 * (- sin a0) = k1 * (sin a2 * sin a1 - cos a2 * sin a0 * cos a1)"
      by simp
    then have "- sin a0 = sin a2 * sin a1 - cos a2 * sin a0 * cos a1"
      by (simp only: mult_left_cancel [OF kk(2)])
    then have e: "sin a2 * sin a1 + sin a0 * (1 - cos a2 * cos a1) = 0"
      by (simp add: algebra_simps)
    have "cos a2 * cos a1 < 1 * 1"
      using s1(3,4) s2(3,4) by (intro mult_strict_mono) simp_all
    then have "0 < sin a0 * (1 - cos a2 * cos a1)"
      using s0(1) by simp
    with pos e show False by linarith
  qed
  have yzx: "model_matrix_in_order [AxisY, AxisZ, AxisX] position (vec3 a0 a1 a2) (vec3 k0 k1 k2) \<noteq> ?src"
  proof
    assume eq: "model_matrix_in_order [AxisY, AxisZ, AxisX] position (vec3 a0 a1 a2) (vec3 k0 k1 k2) = ?src"
    have "- (k1 * (cos a2 * sin a0)) = k1 * (sin a2 * sin a1 - cos a2 * sin a0 * cos a1)"
      using arg_cong [OF eq, of "\<lambda>m. entry m 2 1"]
      by (simp only: entry_YZX_2_1 entry_ZXY_2_1)
    then have "k1 * (- (cos a2 * sin a0)) = k1 * (sin a2 * sin a1 - cos a2 * sin a0 * cos a1)"
      by simp
    then have "- (cos a2 * sin a0) = sin a2 * sin a1 - cos a2 * sin a0 * cos a1"
      by (simp only: mult_left_cancel [OF kk(2)])
    then have e: "sin a2 * sin a1 + cos a2 * sin a0 * (1 - cos a1) = 0"
      by (simp add: algebra_simps)
    have "0 < cos a2 * sin a0 * (1 - cos a1)"
      using s0(1) s2(3) s1(4) by simp
    with pos e show False by linarith
  qed
  from o xyz xzy yxz yzx zyx show ?thesis
    unfolding orientation scale by auto
qed

text \<open>
  Claim C2. For every position, orientation and scale, \<open>buildModelMatrix\<close> is the product
  \<open>translate(position) * scale(scale) * rotateZ(orientation.z) * rotateX(orientation.x) *
  rotateY(orientation.y)\<close> applied to the identity, in that order (the product is
  associative, so it is stated both as the calls nest and grouped from the right). The
  rotations are the calls of the source in the order Z, X, Y, and the order of the axes
  matters: whenever the three angles lie strictly between 0 and a quarter turn and no scale
  factor is 0, each of the five other orders of the three rotations gives another matrix.
\<close>

theorem buildModelMatrix_composition:
  "buildModelMatrix position orientation scale =
     mat_times (mat_times (mat_times (mat_times (mat_times identity (translation position))
       (scaling scale)) (rotateZ (index3 orientation 2))) (rotateX (index3 orientation 0)))
       (rotateY (index3 orientation 1)) \<and>
   buildModelMatrix position orientation scale =
     mat_times (translation position) (mat_times (scaling scale)
       (mat_times (rotateZ (index3 orientation 2))
         (mat_times (rotateX (index3 orientation 0)) (rotateY (index3 orientation 1))))) \<and>
   buildModelMatrix position orientation scale =
     model_matrix_in_order [AxisZ, AxisX, AxisY] position orientation scale \<and>
   (generic_angles orientation \<and> nonzero_scale scale \<longrightarrow>
      (\<forall>order \<in> {[AxisX, AxisY, AxisZ], [AxisX, AxisZ, AxisY], [AxisY, AxisX, AxisZ],
                  [AxisY, AxisZ, AxisX], [AxisZ, AxisY, AxisX]}.
         model_matrix_in_order order position orientation scale \<noteq>
         buildModelMatrix position orientation scale))"
proof (intro conjI impI ballI)
  show "buildModelMatrix position orientation scale =
     mat_times (mat_times (mat_times (mat_times (mat_times identity (translation position))
       (scaling scale)) (rotateZ (index3 orientation 2))) (rotateX (index3 orientation 0)))
       (rotateY (index3 orientation 1))"
    by (rule buildModelMatrix_product)
  show "buildModelMatrix position orientation scale =
     mat_times (translation position) (mat_times (scaling scale)
       (mat_times (rotateZ (index3 orientation 2))
         (mat_times (rotateX (index3 orientation 0)) (rotateY (index3 orientation 1)))))"
    by (rule buildModelMatrix_product_right)
  show "buildModelMatrix position orientation scale =
     model_matrix_in_order [AxisZ, AxisX, AxisY] position orientation scale"
    by (rule buildModelMatrix_source_order)
next
  fix order
  assume "generic_angles orientation \<and> nonzero_scale scale"
    and "order \<in> {[AxisX, AxisY, AxisZ], [AxisX, AxisZ, AxisY], [AxisY, AxisX, AxisZ],
                    [AxisY, AxisZ, AxisX], [AxisZ, AxisY, AxisX]}"
  then show "model_matrix_in_order order position orientation scale \<noteq>
      buildModelMatrix position orientation scale"
    using other_orders_differ [of orientation scale order position]
    by (simp only: buildModelMatrix_source_order) blast
qed

text \<open>The angles \<open>\<pi>/6\<close>, \<open>\<pi>/4\<close>, \<open>\<pi>/3\<close> with the position and scale \<open>main\<close> uses.\<close>

theorem buildModelMatrix_composition_witness:
  "generic_angles (vec3 (pi / 6) (pi / 4) (pi / 3)) \<and> nonzero_scale (vec3 3 3 3) \<and>
   model_matrix_in_order [AxisX, AxisY, AxisZ] (vec3 0 0 (- 3)) (vec3 (pi / 6) (pi / 4) (pi / 3)) (vec3 3 3 3) \<noteq>
     buildModelMatrix (vec3 0 0 (- 3)) (vec3 (pi / 6) (pi / 4) (pi / 3)) (vec3 3 3 3) \<and>
   model_matrix_in_order [AxisX, AxisZ, AxisY] (vec3 0 0 (- 3)) (vec3 (pi / 6) (pi / 4) (pi / 3)) (vec3 3 3 3) \<noteq>
     buildModelMatrix (vec3 0 0 (- 3)) (vec3 (pi / 6) (pi / 4) (pi / 3)) (vec3 3 3 3) \<and>
   model_matrix_in_order [AxisY, AxisX, AxisZ] (vec3 0 0 (- 3)) (vec3 (pi / 6) (pi / 4) (pi / 3)) (vec3 3 3 3) \<noteq>
     buildModelMatrix (vec3 0 0 (- 3)) (vec3 (pi / 6) (pi / 4) (pi / 3)) (vec3 3 3 3) \<and>
   model_matrix_in_order [AxisY, AxisZ, AxisX] (vec3 0 0 (- 3)) (vec3 (pi / 6) (pi / 4) (pi / 3)) (vec3 3 3 3) \<noteq>
     buildModelMatrix (vec3 0 0 (- 3)) (vec3 (pi / 6) (pi / 4) (pi / 3)) (vec3 3 3 3) \<and>
   model_matrix_in_order [AxisZ, AxisY, AxisX] (vec3 0 0 (- 3)) (vec3 (pi / 6) (pi / 4) (pi / 3)) (vec3 3 3 3) \<noteq>
     buildModelMatrix (vec3 0 0 (- 3)) (vec3 (pi / 6) (pi / 4) (pi / 3)) (vec3 3 3 3)"
proof -
  have g: "generic_angles (vec3 (pi / 6) (pi / 4) (pi / 3))"
    by (simp add: generic_angles_def)
  have k: "nonzero_scale (vec3 3 3 3)"
    by (simp add: nonzero_scale_def)
  from buildModelMatrix_composition [of "vec3 0 0 (- 3)" "vec3 (pi / 6) (pi / 4) (pi / 3)" "vec3 3 3 3"] g k
  show ?thesis by blast
qed

text \<open>
  Claim C9. At position \<open>(0,0,0)\<close>, orientation \<open>(0,0,0)\<close> and scale \<open>(1,1,1)\<close> the result is the
  identity matrix.
\<close>

theorem buildModelMatrix_identity:
  "buildModelMatrix (vec3 0 0 0) (vec3 0 0 0) (vec3 1 1 1) =
     mat4 (vec4 1 0 0 0) (vec4 0 1 0 0) (vec4 0 0 1 0) (vec4 0 0 0 1)"
  by (simp add: buildModelMatrix_def glm_translate_def glm_scale_def glm_rotate_def glm_mat4_def
      normalize_def inversesqrt_def Let_def)

section \<open>Properties of constructMesh\<close>

lemma constructMesh_nonempty:
  assumes "vertices \<noteq> []" "fs \<noteq> []"
  shows "\<exists>gl'. constructMesh gl vertices fs =
           Inr (\<lparr>vao = driver_names gl (generated gl), faces = of_nat (length fs), texture = 0\<rparr>, gl')"
  using assms
  by (cases vertices; cases fs)
     (simp_all add: constructMesh_def element0_address_def glGenVertexArrays_def
        glGenBuffers_def Let_def)

lemma constructMesh_empty:
  assumes "vertices = [] \<or> fs = []"
  shows "constructMesh gl vertices fs = Inl OutOfBounds"
  using assms
  by (cases vertices; cases fs)
     (simp_all add: constructMesh_def element0_address_def glGenVertexArrays_def
        glGenBuffers_def Let_def)

text \<open>
  Claim C1, as amended. For every vertex list and non-empty index list that satisfy the
  stated preconditions, \<open>constructMesh\<close> returns a mesh, and its \<open>faces\<close> field is the
  length of the index list as a 32-bit value, that is three times the number of triangles
  (the count \<^verbatim>\<open>glDrawElements\<close> is later given), not the length divided by 3.
\<close>

theorem constructMesh_faces_is_index_count:
  assumes "mesh_preconditions vertices fs" and "fs \<noteq> []"
  shows "\<exists>m. mesh_of (constructMesh gl vertices fs) = Inr m \<and>
             faces m = of_nat (length fs) \<and>
             (length fs < 2 ^ 32 \<longrightarrow> unat (faces m) = 3 * (length fs div 3))"
proof -
  from assms have "vertices \<noteq> []"
    by (cases fs) (auto simp: mesh_preconditions_def)
  from constructMesh_nonempty [OF this \<open>fs \<noteq> []\<close>, of gl]
  obtain gl' where r: "constructMesh gl vertices fs =
      Inr (\<lparr>vao = driver_names gl (generated gl), faces = of_nat (length fs), texture = 0\<rparr>, gl')"
    by blast
  from assms have "3 * (length fs div 3) = length fs"
    by (auto simp: mesh_preconditions_def)
  then show ?thesis
    using r by (simp add: mesh_of_def unat_of_nat)
qed

text \<open>The literal triangle meets the hypotheses; its mesh reports 3.\<close>

theorem constructMesh_faces_is_index_count_witness:
  "mesh_preconditions triangleVertices triangleFaces \<and> triangleFaces \<noteq> [] \<and>
   mesh_of (constructMesh gl_init triangleVertices triangleFaces) =
     Inr \<lparr>vao = 1, faces = 3, texture = 0\<rparr>"
  using constructMesh_faces_is_index_count [of triangleVertices triangleFaces gl_init]
  by (simp add: mesh_preconditions_def triangleVertices_def triangleFaces_def mesh_of_def
      constructMesh_def element0_address_def glGenVertexArrays_def glGenBuffers_def gl_init_def
      emit_def)

text \<open>
  Claim C1, as stated, fails at the literal triangle: the preconditions hold, the mesh is
  built, and its \<open>faces\<close> field is 3 where the claim expects \<open>3 div 3 = 1\<close>.
\<close>

theorem triangle_face_count_counterexample:
  "mesh_preconditions triangleVertices triangleFaces \<and>
   mesh_of (constructMesh gl_init triangleVertices triangleFaces) =
     Inr \<lparr>vao = 1, faces = 3, texture = 0\<rparr> \<and>
   unat (3 :: u32) \<noteq> length triangleFaces div 3 \<and> length triangleFaces div 3 = 1"
  by (simp add: mesh_preconditions_def triangleVertices_def triangleFaces_def mesh_of_def
      constructMesh_def element0_address_def glGenVertexArrays_def glGenBuffers_def gl_init_def
      emit_def)

text \<open>
  Claim C3 at the literal triangle: every OpenGL call \<open>constructMesh\<close> makes, in order.
  Attribute 0 is described as 3 floats at offset 0 with stride 20 and enabled; no call
  describes or enables attribute 1, so the two floats at byte offset 12 are never bound.
\<close>

theorem constructMesh_triangle_calls:
  "calls_of (constructMesh gl_init triangleVertices triangleFaces) =
     Inr [GenVertexArrays 1, BindVertexArray 1, GenBuffers 2, BindBuffer GL_ARRAY_BUFFER 2,
          BufferData GL_ARRAY_BUFFER 60 (VertexData triangleVertices) GL_STATIC_DRAW,
          VertexAttribPointer 0 3 GL_FLOAT False 20 0, EnableVertexAttribArray 0,
          GenBuffers 3, BindBuffer GL_ELEMENT_ARRAY_BUFFER 3,
          BufferData GL_ELEMENT_ARRAY_BUFFER 12 (IndexData triangleFaces) GL_STATIC_DRAW,
          BindVertexArray 0]"
  by (simp add: triangleVertices_def triangleFaces_def calls_of_def
      constructMesh_def element0_address_def glGenVertexArrays_def glGenBuffers_def gl_init_def
      emit_def sizeof_Vertex3D_def sizeof_float_def sizeof_uint32_def)

text \<open>
  Claim C10. With both lists non-empty every read of \<open>constructMesh\<close> is in bounds and a
  mesh is returned; with an empty vertex list or an empty index list the read of element
  0 is out of bounds; and the stated preconditions do admit an empty index list (with any
  vertex list, the empty one included).
\<close>

theorem constructMesh_element0:
  "(vertices \<noteq> [] \<and> fs \<noteq> [] \<longrightarrow> (\<exists>m gl'. constructMesh gl vertices fs = Inr (m, gl'))) \<and>
   (vertices = [] \<or> fs = [] \<longrightarrow> constructMesh gl vertices fs = Inl OutOfBounds) \<and>
   mesh_preconditions vertices [] \<and> mesh_preconditions [] []"
  using constructMesh_nonempty [of vertices fs gl] constructMesh_empty [of vertices fs gl]
  by (auto simp: mesh_preconditions_def)

text \<open>The triangle, the triangle's vertices without indices, and two empty lists.\<close>

theorem constructMesh_element0_witness:
  "triangleVertices \<noteq> [] \<and> triangleFaces \<noteq> [] \<and>
   (\<exists>m gl'. constructMesh gl_init triangleVertices triangleFaces = Inr (m, gl')) \<and>
   mesh_preconditions triangleVertices [] \<and>
   constructMesh gl_init triangleVertices [] = Inl OutOfBounds \<and>
   mesh_preconditions [] [] \<and>
   constructMesh gl_init [] [] = Inl OutOfBounds"
  using constructMesh_element0 [of triangleVertices triangleFaces gl_init]
    constructMesh_element0 [of triangleVertices "[]" gl_init]
    constructMesh_element0 [of "[]" "[]" gl_init]
  by (simp add: triangleVertices_def triangleFaces_def)

section \<open>Properties of the import\<close>

lemma length_three:
  assumes "length xs = 3"
  obtains a b c where "xs = [a, b, c]"
proof -
  from assms obtain a ys where 1: "xs = a # ys" and "length ys = 2"
    by (cases xs) auto
  then obtain b zs where 2: "ys = b # zs" and "length zs = 1"
    by (cases ys) auto
  then obtain c where 3: "zs = [c]"
    by (cases zs) auto
  from 1 2 3 that show thesis by simp
qed

lemma face_indices_triangle:
  assumes "length (mIndices f) = 3"
  shows "face_indices f = Inr (mIndices f)"
proof -
  from assms obtain a b c where "mIndices f = [a, b, c]"
    by (rule length_three)
  then show ?thesis
    by (simp add: face_indices_def array_read_def)
qed

lemma vertex_loop_drop:
  assumes "length (mVertices mesh) = mNumVertices mesh"
  shows "vertex_loop mesh i vertices = Inr (vertices @ map pushed_vertex (drop i (mVertices mesh)))"
  using assms
proof (induction mesh i vertices rule: vertex_loop.induct)
  case (1 mesh i vertices)
  show ?case
  proof (cases "i < mNumVertices mesh")
    case True
    with "1.prems" have rd: "array_read (mVertices mesh) i = Inr (mVertices mesh ! i)"
      by (simp add: array_read_def)
    from True "1.prems" have dr: "drop i (mVertices mesh) = mVertices mesh ! i # drop (Suc i) (mVertices mesh)"
      by (simp add: Cons_nth_drop_Suc)
    from "1.IH" [OF True rd "1.prems"] True rd dr show ?thesis
      by (subst vertex_loop.simps) simp
  next
    case False
    with "1.prems" show ?thesis
      by (subst vertex_loop.simps) simp
  qed
qed

lemma face_loop_drop:
  assumes "length (mFaces mesh) = mNumFaces mesh"
      and "list_all (\<lambda>f. length (mIndices f) = 3) (mFaces mesh)"
  shows "face_loop mesh i fs = Inr (fs @ concat (map mIndices (drop i (mFaces mesh))))"
  using assms
proof (induction mesh i fs rule: face_loop.induct)
  case (1 mesh i fs)
  show ?case
  proof (cases "i < mNumFaces mesh")
    case True
    with "1.prems" have rd: "array_read (mFaces mesh) i = Inr (mFaces mesh ! i)"
      by (simp add: array_read_def)
    from True "1.prems" have "length (mIndices (mFaces mesh ! i)) = 3"
      by (simp add: list_all_length)
    then have fi: "face_indices (mFaces mesh ! i) = Inr (mIndices (mFaces mesh ! i))"
      by (rule face_indices_triangle)
    from True "1.prems" have dr: "drop i (mFaces mesh) = mFaces mesh ! i # drop (Suc i) (mFaces mesh)"
      by (simp add: Cons_nth_drop_Suc)
    from "1.IH" [OF True rd fi "1.prems"] True rd fi dr show ?thesis
      by (subst face_loop.simps) simp
  next
    case False
    with "1.prems" show ?thesis
      by (subst face_loop.simps) simp
  qed
qed

lemma fromAssimpMesh_triangle_mesh:
  assumes "triangle_mesh mesh"
  shows "fromAssimpMesh mesh [] [] =
           Inr (map pushed_vertex (mVertices mesh), concat (map mIndices (mFaces mesh)))"
proof -
  from assms have lv: "length (mVertices mesh) = mNumVertices mesh"
    and lf: "length (mFaces mesh) = mNumFaces mesh"
    and tri: "list_all (\<lambda>f. length (mIndices f) = 3) (mFaces mesh)"
    by (simp_all add: triangle_mesh_def list_all_iff)
  show ?thesis
    by (simp add: fromAssimpMesh_def vertex_loop_drop [OF lv] face_loop_drop [OF lf tri])
qed

lemma length_concat_triangles:
  "list_all (\<lambda>f. length (mIndices f) = 3) xs \<Longrightarrow> length (concat (map mIndices xs)) = 3 * length xs"
  by (induction xs) auto

text \<open>
  Claim C4 at a source triangle whose first UV channel is \<open>(0,1), (0,0), (1,0)\<close>: one
  vertex is emitted per source vertex with the source position, but \<open>u\<close> and \<open>v\<close> are 0 in
  each of them, so the result is not the triangle with its texture coordinates.
\<close>

theorem fromAssimpMesh_drops_uv:
  "fromAssimpMesh uv_triangle [] [] =
     Inr ([\<lparr>x = - 0.5, y = - 0.5, z = 0, u = 0, v = 0\<rparr>,
           \<lparr>x = - 0.5, y = 0.5, z = 0, u = 0, v = 0\<rparr>,
           \<lparr>x = 0.5, y = 0.5, z = 0, u = 0, v = 0\<rparr>], [2, 1, 0]) \<and>
   map_sum id fst (fromAssimpMesh uv_triangle [] []) \<noteq> Inr triangleVertices"
proof -
  have "triangle_mesh uv_triangle"
    by (simp add: triangle_mesh_def uv_triangle_def)
  from fromAssimpMesh_triangle_mesh [OF this] show ?thesis
    by (simp add: uv_triangle_def pushed_vertex_def triangleVertices_def)
qed

text \<open>
  Claim C7. For a source mesh with triangular faces (the arrays as long as their counts,
  three indices per face, every index naming a vertex of the mesh), the import succeeds
  and emits exactly \<open>3 * F\<close> indices, the indices of the faces in face order, and every
  emitted index is below the number of emitted vertices.
\<close>

theorem fromAssimpMesh_indices:
  assumes "triangle_mesh mesh"
  shows "\<exists>vertices fs. fromAssimpMesh mesh [] [] = Inr (vertices, fs) \<and>
           length fs = 3 * mNumFaces mesh \<and>
           fs = concat (map mIndices (mFaces mesh)) \<and>
           length vertices = mNumVertices mesh \<and>
           list_all (\<lambda>i. unat i < length vertices) fs"
proof -
  from assms have lv: "length (mVertices mesh) = mNumVertices mesh"
    and lf: "length (mFaces mesh) = mNumFaces mesh"
    and tri: "list_all (\<lambda>f. length (mIndices f) = 3) (mFaces mesh)"
    and rng: "\<forall>f \<in> set (mFaces mesh). \<forall>i \<in> set (mIndices f). unat i < mNumVertices mesh"
    by (simp_all add: triangle_mesh_def list_all_iff)
  have "length (concat (map mIndices (mFaces mesh))) = 3 * mNumFaces mesh"
    using length_concat_triangles [OF tri] lf by simp
  moreover have "list_all (\<lambda>i. unat i < length (map pushed_vertex (mVertices mesh)))
      (concat (map mIndices (mFaces mesh)))"
    using rng lv by (auto simp: list_all_iff)
  ultimately show ?thesis
    using fromAssimpMesh_triangle_mesh [OF assms] lv by simp
qed

text \<open>A cube of 8 vertices and 12 triangles yields its 36 indices.\<close>

theorem fromAssimpMesh_indices_witness:
  "triangle_mesh cube \<and> mNumFaces cube = 12 \<and>
   map_sum id (\<lambda>p. length (snd p)) (fromAssimpMesh cube [] []) = Inr 36 \<and>
   map_sum id snd (fromAssimpMesh cube [] []) =
     Inr [0, 2, 1, 0, 3, 2, 4, 5, 6, 4, 6, 7, 0, 1, 5, 0, 5, 4,
          1, 2, 6, 1, 6, 5, 2, 3, 7, 2, 7, 6, 3, 0, 4, 3, 4, 7]"
proof -
  have tm: "triangle_mesh cube"
    by (simp add: triangle_mesh_def cube_def)
  from fromAssimpMesh_indices [OF tm] obtain vertices fs where
    "fromAssimpMesh cube [] [] = Inr (vertices, fs)" "length fs = 3 * mNumFaces cube"
    "fs = concat (map mIndices (mFaces cube))"
    by blast
  with tm show ?thesis
    by (simp add: cube_def)
qed

text \<open>
  Claim C8 at the same source triangle: the importer flips the V coordinates of the asset
  when \<open>flipUvs\<close> is set (\<open>1, 0, 0\<close> becomes \<open>0, 1, 1\<close>), yet \<open>assimpLoad\<close> returns the same
  mesh after the same OpenGL calls with and without the flag, and every imported vertex has
  \<open>v = 0\<close> in both runs: the texture coordinates never reach the imported vertices.
\<close>

theorem flipUvs_changes_nothing:
  "assimpLoad uv_triangle_importer gl_init ''models/bunny_textured.obj'' True =
   assimpLoad uv_triangle_importer gl_init ''models/bunny_textured.obj'' False \<and>
   fromAssimpMesh (FlipUVs uv_triangle) [] [] =
     Inr ([\<lparr>x = - 0.5, y = - 0.5, z = 0, u = 0, v = 0\<rparr>,
           \<lparr>x = - 0.5, y = 0.5, z = 0, u = 0, v = 0\<rparr>,
           \<lparr>x = 0.5, y = 0.5, z = 0, u = 0, v = 0\<rparr>], [2, 1, 0]) \<and>
   fromAssimpMesh uv_triangle [] [] = fromAssimpMesh (FlipUVs uv_triangle) [] [] \<and>
   map ai_y (hd (mTextureCoords (FlipUVs uv_triangle))) = [0, 1, 1] \<and>
   map ai_y (hd (mTextureCoords uv_triangle)) = [1, 0, 0]"
proof -
  have a: "triangle_mesh uv_triangle"
    by (simp add: triangle_mesh_def uv_triangle_def)
  have b: "triangle_mesh (FlipUVs uv_triangle)"
    by (simp add: triangle_mesh_def uv_triangle_def FlipUVs_def)
  show ?thesis
    by (simp add: assimpLoad_def uv_triangle_importer_def array_read_def
        fromAssimpMesh_triangle_mesh [OF a] fromAssimpMesh_triangle_mesh [OF b])
       (simp add: uv_triangle_def FlipUVs_def flip_uv_def pushed_vertex_def)
qed

text \<open>
  Where \<open>assimpLoad\<close> does as described: a file the importer cannot parse ends the process
  with status 1 after the diagnostic, and a scene whose first mesh is a non-empty triangle
  mesh gives the mesh built from that first mesh.
\<close>

lemma assimpLoad_parse_failure:
  assumes "ReadFile path
      (if flipUvs then {aiProcessPreset_TargetRealtime_MaxQuality, aiProcess_FlipUVs}
       else {aiProcessPreset_TargetRealtime_MaxQuality}) = Inl msg"
  shows "assimpLoad ReadFile gl path flipUvs = Inl (Exit 1 (''ASSIMP ERROR'' @ msg))"
  using assms by (auto simp: assimpLoad_def Let_def insert_commute)

lemma assimpLoad_first_mesh:
  assumes "ReadFile path
      (if flipUvs then {aiProcessPreset_TargetRealtime_MaxQuality, aiProcess_FlipUVs}
       else {aiProcessPreset_TargetRealtime_MaxQuality}) = Inr scene"
    and "mMeshes scene = mesh # others" and "triangle_mesh mesh"
  shows "assimpLoad ReadFile gl path flipUvs =
           constructMesh gl (map pushed_vertex (mVertices mesh)) (concat (map mIndices (mFaces mesh)))"
  using assms
  by (auto simp: assimpLoad_def Let_def insert_commute array_read_def fromAssimpMesh_triangle_mesh)

text \<open>
  Claim C5 at a scene that parsed and holds no mesh: \<open>assimpLoad\<close> does not report and exit,
  it reads \<^verbatim>\<open>scene->mMeshes[0]\<close> outside the array.
\<close>

theorem assimpLoad_no_mesh:
  "assimpLoad no_mesh_importer gl_init ''models/bunny_textured.obj'' True = Inl OutOfBounds"
  by (simp add: assimpLoad_def no_mesh_importer_def array_read_def)

section \<open>Properties of the render loop\<close>

lemma emit_calls: "emit c gl = gl\<lparr>calls := calls gl @ [c]\<rparr>"
  by (simp add: emit_def)

lemma poll_events_result:
  "poll_events evs running gl =
     (running \<and> Closed \<notin> set evs,
      gl\<lparr>calls := calls gl @ map (\<lambda>ev. PollEvent (Some ev)) evs @ [PollEvent None]\<rparr>)"
  by (induction evs arbitrary: running gl) (auto simp: emit_def)

lemma main_loop_stopped: "main_loop obj frames False last_time gl = (Some 0, gl)"
  by (cases frames) simp_all

lemma main_loop_iteration:
  "main_loop obj (f # frames) True last_time gl =
     main_loop obj frames (Closed \<notin> set (pending f)) (clock f)
       (gl\<lparr>calls := calls gl @ iteration_calls obj last_time f\<rparr>)"
  by (simp add: poll_events_result iteration_calls_def drawMesh_def emit_def Let_def)

lemma main_loop_running:
  assumes "list_all (\<lambda>f. Closed \<notin> set (pending f)) before"
  shows "main_loop obj (before @ frames) True last_time gl =
           main_loop obj frames True (last (last_time # map clock before))
             (gl\<lparr>calls := calls gl @ iterations_calls obj last_time before\<rparr>)"
  using assms
proof (induction before arbitrary: last_time gl)
  case Nil
  then show ?case by simp
next
  case (Cons f before)
  then show ?case
    by (simp add: main_loop_iteration del: main_loop.simps)
qed

lemma iterations_calls_append:
  "iterations_calls obj last_time (before @ [f]) =
     iterations_calls obj last_time before @
     iteration_calls obj (last (last_time # map clock before)) f"
  by (induction before arbitrary: last_time) simp_all

text \<open>
  Claim C6. Let the frames \<open>before\<close> deliver no close event and the frame \<open>f\<close> deliver one.
  Then the flag \<open>running\<close> is false when the event drain of \<open>f\<close> ends, hence before the draw
  that follows it; every iteration up to and including that of \<open>f\<close> makes the calls of
  \<open>iteration_calls\<close> in their order (drain, measure, view and projection, model, clear, draw,
  present); no iteration runs after that of \<open>f\<close>, whatever frames follow, and the exit status
  is 0. As long as no close event came the loop is still running.
\<close>

theorem render_loop_close:
  assumes "list_all (\<lambda>f. Closed \<notin> set (pending f)) before" and "Closed \<in> set (pending f)"
  shows "fst (poll_events (pending f) True gl') = False \<and>
         main_loop obj (before @ f # after) True last_time gl =
           (Some 0, gl\<lparr>calls := calls gl @ iterations_calls obj last_time (before @ [f])\<rparr>) \<and>
         main_loop obj before True last_time gl =
           (None, gl\<lparr>calls := calls gl @ iterations_calls obj last_time before\<rparr>)"
proof (intro conjI)
  show "fst (poll_events (pending f) True gl') = False"
    using assms(2) by (simp add: poll_events_result)
  show "main_loop obj (before @ f # after) True last_time gl =
      (Some 0, gl\<lparr>calls := calls gl @ iterations_calls obj last_time (before @ [f])\<rparr>)"
    using assms(2)
    by (simp add: main_loop_running [OF assms(1)] main_loop_iteration main_loop_stopped
        iterations_calls_append del: main_loop.simps)
  show "main_loop obj before True last_time gl =
      (None, gl\<lparr>calls := calls gl @ iterations_calls obj last_time before\<rparr>)"
    using main_loop_running [OF assms(1), of obj "[]" last_time gl] by simp
qed

text \<open>A frame without events, then one in which the window is closed, then one more.\<close>

theorem render_loop_close_witness:
  "list_all (\<lambda>f. Closed \<notin> set (pending f)) [quiet_frame] \<and> Closed \<in> set (pending closing_frame) \<and>
   fst (poll_events (pending closing_frame) True gl_init) = False \<and>
   main_loop triangle_mesh_handle [quiet_frame, closing_frame, quiet_frame] True 0 gl_init =
     (Some 0, gl_init\<lparr>calls :=
        iteration_calls triangle_mesh_handle 0 quiet_frame @
        iteration_calls triangle_mesh_handle 16000 closing_frame\<rparr>) \<and>
   main_loop triangle_mesh_handle [quiet_frame] True 0 gl_init =
     (None, gl_init\<lparr>calls := iteration_calls triangle_mesh_handle 0 quiet_frame\<rparr>)"
  using render_loop_close [of "[quiet_frame]" closing_frame gl_init triangle_mesh_handle "[quiet_frame]" 0 gl_init]
  by (simp add: quiet_frame_def closing_frame_def gl_init_def del: main_loop.simps poll_events.simps)

end
